theory Spec2Isabelle
  imports Main
begin

section \<open>JavaScript values\<close>

text \<open>
  The two clients and the error normalizer are written against values of type
  \<^verbatim>\<open>any\<close>/\<^verbatim>\<open>unknown\<close>: parsed JSON bodies, thrown values, and the results of
  property reads on them. They are modelled by one datatype.

  A number is kept as \<open>NInt n\<close> when it is integral (the HTTP status codes, which the
  code compares with \<^verbatim>\<open>===\<close>), as \<open>NNaN\<close>, or as \<open>NOther s\<close> for any other number
  (a fraction, an infinity, an integer of magnitude \<open>10^21\<close> or more), where \<open>s\<close> is
  the text \<^verbatim>\<open>String()\<close> gives for it; such a number is never zero.

  \<open>JErr name message props\<close> is an instance of \<^verbatim>\<open>Error\<close> (or of a subclass called
  \<open>name\<close>) constructed with \<open>message\<close>, to which the own properties \<open>props\<close> were
  assigned afterwards. \<open>JObj\<close> is a plain object with its own properties; where a key
  occurs twice the first entry counts. Values of type symbol, bigint and function are
  outside the model. Strings are byte strings (UTF-8).
\<close>

datatype jsnum = NInt int | NNaN | NOther string

datatype jsval =
    JUndefined
  | JNull
  | JBool bool
  | JNum jsnum
  | JStr string
  | JArr "jsval list"
  | JObj "(string \<times> jsval) list"
  | JErr string string "(string \<times> jsval) list"

text \<open>Truthiness, as \<^verbatim>\<open>if (v)\<close>, \<^verbatim>\<open>!v\<close>, \<^verbatim>\<open>a && b\<close> and \<^verbatim>\<open>a || b\<close> test it.\<close>

fun truthy :: "jsval \<Rightarrow> bool" where
  "truthy JUndefined = False"
| "truthy JNull = False"
| "truthy (JBool b) = b"
| "truthy (JNum (NInt n)) = (n \<noteq> 0)"
| "truthy (JNum NNaN) = False"
| "truthy (JNum (NOther s)) = True"
| "truthy (JStr s) = (s \<noteq> [])"
| "truthy (JArr xs) = True"
| "truthy (JObj fs) = True"
| "truthy (JErr n m fs) = True"

text \<open>\<^verbatim>\<open>typeof v === 'object'\<close> (true of \<^verbatim>\<open>null\<close> too) and \<^verbatim>\<open>typeof v === 'string'\<close>.\<close>

fun typeof_object :: "jsval \<Rightarrow> bool" where
  "typeof_object JNull = True"
| "typeof_object (JArr xs) = True"
| "typeof_object (JObj fs) = True"
| "typeof_object (JErr n m fs) = True"
| "typeof_object v = False"

fun typeof_string :: "jsval \<Rightarrow> bool" where
  "typeof_string (JStr s) = True"
| "typeof_string v = False"

text \<open>
  \<open>prop_of v k\<close> is the property read \<^verbatim>\<open>v.k\<close> on a value that is neither \<^verbatim>\<open>null\<close>
  nor \<^verbatim>\<open>undefined\<close>, for the keys this code reads (\<^verbatim>\<open>message\<close>, \<^verbatim>\<open>status\<close>,
  \<^verbatim>\<open>error\<close>, \<^verbatim>\<open>errors\<close>, \<^verbatim>\<open>token\<close>, \<^verbatim>\<open>user\<close>): none of them is defined on the
  prototypes of strings, numbers, booleans, arrays or objects, so a primitive or an
  array yields \<^verbatim>\<open>undefined\<close>. It is also the optional read \<^verbatim>\<open>v?.k\<close> on every value.
\<close>

fun lookup_prop :: "(string \<times> jsval) list \<Rightarrow> string \<Rightarrow> jsval" where
  "lookup_prop [] k = JUndefined"
| "lookup_prop ((k', v) # fs) k = (if k' = k then v else lookup_prop fs k)"

fun prop_of :: "jsval \<Rightarrow> string \<Rightarrow> jsval" where
  "prop_of (JObj fs) k = lookup_prop fs k"
| "prop_of (JErr n m fs) k = (if k = ''message'' then JStr m else lookup_prop fs k)"
| "prop_of v k = JUndefined"

section \<open>The error normalizer\<close>

text \<open>
  \<^verbatim>\<open>ApiErrorHandler.handle\<close>: the \<^verbatim>\<open>switch\<close> on \<^verbatim>\<open>err.status\<close> compares with
  \<^verbatim>\<open>===\<close>, so only the number itself matches a case, and it has no default branch.
\<close>

definition handle :: "jsval \<Rightarrow> string" where
  "handle error =
    (let message = ''An unexpected error occurred. Please try again later.'' in
     if truthy error \<and> typeof_object error then
       (let status = prop_of error ''status'' in
        if status = JNum (NInt 400) then
          ''Invalid request parameters. Please check your input.''
        else if status = JNum (NInt 401) then
          ''Authentication required. Please log in again.''
        else if status = JNum (NInt 403) then
          ''You do not have permission to perform this action.''
        else if status = JNum (NInt 404) then
          ''The requested resource could not be found.''
        else if status = JNum (NInt 422) then
          ''Validation failed. Please correct the highlighted fields.''
        else if status = JNum (NInt 500) then
          ''A server error occurred. Please try again later.''
        else message)
     else if typeof_string error then
       (case error of JStr s \<Rightarrow> s | _ \<Rightarrow> message)
     else message)"

section \<open>Strings\<close>

text \<open>
  \<^verbatim>\<open>String.prototype.startsWith\<close> and \<^verbatim>\<open>String.prototype.includes\<close>, and the
  decimal text of an integer.
\<close>

definition startsWith :: "string \<Rightarrow> string \<Rightarrow> bool" where
  "startsWith s p = (take (length p) s = p)"

fun str_includes :: "string \<Rightarrow> string \<Rightarrow> bool" where
  "str_includes [] p = (p = [])"
| "str_includes (c # cs) p = (startsWith (c # cs) p \<or> str_includes cs p)"

fun digits :: "nat \<Rightarrow> string" where
  "digits n =
     (if n < 10 then [char_of (48 + n)]
      else digits (n div 10) @ [char_of (48 + n mod 10)])"

declare digits.simps [simp del]

definition int_to_string :: "int \<Rightarrow> string" where
  "int_to_string i = (if i < 0 then CHR ''-'' # digits (nat (- i)) else digits (nat i))"

fun num_to_string :: "jsnum \<Rightarrow> string" where
  "num_to_string (NInt n) = int_to_string n"
| "num_to_string NNaN = ''NaN''"
| "num_to_string (NOther s) = s"

fun join_strings :: "string \<Rightarrow> string list \<Rightarrow> string" where
  "join_strings sep [] = []"
| "join_strings sep [x] = x"
| "join_strings sep (x # y # ys) = x @ sep @ join_strings sep (y # ys)"

fun is_nullish :: "jsval \<Rightarrow> bool" where
  "is_nullish JUndefined = True"
| "is_nullish JNull = True"
| "is_nullish v = False"

text \<open>
  \<open>js_to_string v\<close> is the conversion a template literal and \<^verbatim>\<open>Array.prototype.join\<close>
  apply: an array is its elements joined by a comma, with \<^verbatim>\<open>null\<close> and
  \<^verbatim>\<open>undefined\<close> elements empty; a plain object is converted by
  \<^verbatim>\<open>Object.prototype.toString\<close> and an error by \<^verbatim>\<open>Error.prototype.toString\<close>.
  An object that shadows \<^verbatim>\<open>toString\<close> or \<^verbatim>\<open>name\<close> by an own property is outside
  the model.
\<close>

fun js_to_string :: "jsval \<Rightarrow> string" where
  "js_to_string JUndefined = ''undefined''"
| "js_to_string JNull = ''null''"
| "js_to_string (JBool b) = (if b then ''true'' else ''false'')"
| "js_to_string (JNum n) = num_to_string n"
| "js_to_string (JStr s) = s"
| "js_to_string (JArr xs) =
     join_strings '',''
       (map (\<lambda>x. if is_nullish x then [] else js_to_string x) xs)"
| "js_to_string (JObj fs) = ''[object Object]''"
| "js_to_string (JErr n m fs) =
     (if n = [] then m else if m = [] then n else n @ '': '' @ m)"

text \<open>\<^verbatim>\<open>xs.join(sep)\<close> on an array.\<close>

definition array_join :: "jsval list \<Rightarrow> string \<Rightarrow> string" where
  "array_join xs sep =
     join_strings sep (map (\<lambda>x. if is_nullish x then [] else js_to_string x) xs)"

text \<open>
  \<^verbatim>\<open>encodeURIComponent\<close> on the UTF-8 bytes of a string: letters, digits and
  \<^verbatim>\<open>- _ . ! ~ * ' ( )\<close> stay, every other byte becomes \<^verbatim>\<open>%XX\<close>.
\<close>

definition hex_digit :: "nat \<Rightarrow> char" where
  "hex_digit d = (if d < 10 then char_of (48 + d) else char_of (55 + d))"

definition uri_unreserved :: "char \<Rightarrow> bool" where
  "uri_unreserved c =
     (let n = (of_char c :: nat) in
      (65 \<le> n \<and> n \<le> 90) \<or> (97 \<le> n \<and> n \<le> 122) \<or> (48 \<le> n \<and> n \<le> 57)
      \<or> n \<in> {45, 95, 46, 33, 126, 42, 39, 40, 41})"

definition encodeURIComponent :: "string \<Rightarrow> string" where
  "encodeURIComponent s =
     concat (map (\<lambda>c. if uri_unreserved c then [c]
                       else [CHR ''%'', hex_digit (of_char c div 16), hex_digit (of_char c mod 16)]) s)"

section \<open>Completions and promises\<close>

text \<open>
  A block of statements either completes with a value or throws; a promise is either
  fulfilled with a value or rejected with the thrown value. \<^verbatim>\<open>await p\<close> turns a
  rejected promise into a throw at the place of the \<^verbatim>\<open>await\<close>, where an enclosing
  \<^verbatim>\<open>try\<close> catches it. A promise that is returned without \<^verbatim>\<open>await\<close> leaves the
  \<^verbatim>\<open>try\<close> block as a value, and the promise of the \<^verbatim>\<open>async\<close> function then takes
  the state of the returned one.
\<close>

datatype 'a completion = Returns 'a | Throws jsval

datatype 'a promise = Fulfilled 'a | Rejected jsval

fun await :: "'a promise \<Rightarrow> 'a completion" where
  "await (Fulfilled v) = Returns v"
| "await (Rejected e) = Throws e"

text \<open>\<^verbatim>\<open>v.k\<close>: reading a property of \<^verbatim>\<open>null\<close> or \<^verbatim>\<open>undefined\<close> throws a TypeError
  (the wording of its message is the engine's; this is V8's).\<close>

definition get_prop :: "jsval \<Rightarrow> string \<Rightarrow> jsval completion" where
  "get_prop v k =
     (if is_nullish v then
        Throws (JErr ''TypeError''
          (''Cannot read properties of '' @ js_to_string v @ '' (reading '' @ [CHR 0x27] @ k @ [CHR 0x27] @ '')'') [])
      else Returns (prop_of v k))"

text \<open>\<^verbatim>\<open>new Error(message)\<close>.\<close>

definition new_Error :: "string \<Rightarrow> jsval" where
  "new_Error message = JErr ''Error'' message []"

section \<open>The world outside the clients\<close>

text \<open>
  A request as \<^verbatim>\<open>fetch\<close> receives it. The body is kept as the value whose JSON text
  (\<^verbatim>\<open>JSON.stringify\<close>) is sent. A response is what the pipeline reads of it: status,
  reason phrase, the \<^verbatim>\<open>content-type\<close> header (\<open>None\<close> when absent), and what
  \<^verbatim>\<open>resp.json()\<close> and \<^verbatim>\<open>resp.text()\<close> would give (\<open>None\<close> when they reject).
\<close>

record request =
  req_url :: string
  req_method :: string
  req_body :: "jsval option"
  req_headers :: "(string \<times> string) list"
  req_credentials :: "string option"

record response =
  resp_status :: int
  resp_statusText :: string
  resp_content_type :: "string option"
  resp_json :: "jsval option"
  resp_text :: "string option"

text \<open>\<^verbatim>\<open>resp.ok\<close>: the status is in the range 200 to 299.\<close>

definition resp_ok :: "response \<Rightarrow> bool" where
  "resp_ok r = (200 \<le> resp_status r \<and> resp_status r \<le> 299)"

datatype fetch_result = FetchRejects jsval | FetchResolves response

type_synonym network = "request \<Rightarrow> fetch_result"

text \<open>
  The state the clients act on: the token held by the token manager, and the requests
  handed to \<^verbatim>\<open>fetch\<close> so far, in order. Console output is not part of the state.
\<close>

record world =
  stored_token :: "jsval option"
  fetch_log :: "request list"

text \<open>
  Modelled from the spec: \<^verbatim>\<open>TokenManager\<close> (\<^verbatim>\<open>@/services/TokenManager\<close>), the external
  token store with its three operations get-token, set-token and clear-token on a
  single shared instance, with no expiry logic.
\<close>

definition getToken :: "world \<Rightarrow> jsval" where
  "getToken w = (case stored_token w of None \<Rightarrow> JNull | Some t \<Rightarrow> t)"

definition setToken :: "jsval \<Rightarrow> world \<Rightarrow> world" where
  "setToken t w = w\<lparr>stored_token := Some t\<rparr>"

definition clearToken :: "world \<Rightarrow> world" where
  "clearToken w = w\<lparr>stored_token := None\<rparr>"

section \<open>The request pipeline\<close>

text \<open>\<^verbatim>\<open>buildUrl\<close>, the same in both clients.\<close>

definition buildUrl :: "string \<Rightarrow> string \<Rightarrow> string" where
  "buildUrl baseUrl endpoint =
     baseUrl @ (if startsWith endpoint ''/'' then endpoint else ''/'' @ endpoint)"

text \<open>\<^verbatim>\<open>extractErrorMessage\<close>, the same in both clients.\<close>

definition extractErrorMessage :: "string \<Rightarrow> jsval \<Rightarrow> string" where
  "extractErrorMessage statusText payload =
     (if \<not> truthy payload then (if statusText \<noteq> [] then statusText else ''Request failed'')
      else
        (let e = prop_of payload ''error'';
             es = prop_of payload ''errors''
         in if truthy e \<and> typeof_string e then js_to_string e
            else
              (case es of
                 JArr xs \<Rightarrow>
                   if length xs \<noteq> 0 then array_join xs ''; ''
                   else if statusText \<noteq> [] then statusText else ''Request failed''
               | _ \<Rightarrow> if statusText \<noteq> [] then statusText else ''Request failed'')))"

text \<open>
  The options the public methods pass to \<^verbatim>\<open>makeRequest\<close>: a method and, for some, a
  body. None of them passes headers, so the headers of a request are the default
  \<^verbatim>\<open>Content-Type\<close> and, when the stored token is truthy, \<^verbatim>\<open>Authorization\<close>.
\<close>

record options =
  opt_method :: string
  opt_body :: "jsval option"

text \<open>
  \<^verbatim>\<open>makeRequest\<close>. The two clients hold the same text of it, except that
  \<^verbatim>\<open>ApiAuthService\<close> adds \<^verbatim>\<open>credentials: 'include'\<close> to the request; \<open>cred\<close> is that
  difference. It is an \<^verbatim>\<open>async\<close> function: the call returns a promise, and whatever
  is thrown inside rejects that promise.

  \<open>request_for\<close> is its first part, the url, headers and init it hands to \<^verbatim>\<open>fetch\<close>;
  \<open>read_body\<close> is the part that reads the body by content type, where a body that
  cannot be parsed or read becomes \<^verbatim>\<open>null\<close>. The request is logged where \<^verbatim>\<open>fetch\<close>
  is called.
\<close>

definition request_for :: "string option \<Rightarrow> string \<Rightarrow> string \<Rightarrow> options \<Rightarrow> world \<Rightarrow> request" where
  "request_for cred baseUrl endpoint opts w =
     (let url = buildUrl baseUrl endpoint;
          token = getToken w;
          headers = (''Content-Type'', ''application/json'') #
                    (if truthy token then [(''Authorization'', ''Bearer '' @ js_to_string token)]
                     else [])
      in \<lparr>req_url = url, req_method = opt_method opts, req_body = opt_body opts,
          req_headers = headers, req_credentials = cred\<rparr>)"

definition read_body :: "response \<Rightarrow> jsval" where
  "read_body resp =
     (let ct = (case resp_content_type resp of None \<Rightarrow> [] | Some c \<Rightarrow> c);
          isJson = str_includes ct ''application/json''
      in if isJson
         then (case resp_json resp of None \<Rightarrow> JNull | Some jsonData \<Rightarrow> jsonData)
         else (case resp_text resp of None \<Rightarrow> JNull | Some textData \<Rightarrow> JStr textData))"

definition makeRequest ::
  "string option \<Rightarrow> network \<Rightarrow> string \<Rightarrow> string \<Rightarrow> options \<Rightarrow> world \<Rightarrow> jsval promise \<times> world" where
  "makeRequest cred net baseUrl endpoint opts w =
     (let req = request_for cred baseUrl endpoint opts w;
          w' = w\<lparr>fetch_log := fetch_log w @ [req]\<rparr>
      in case net req of
           FetchRejects fetchError \<Rightarrow>
             (case get_prop fetchError ''message'' of
                Throws typeError \<Rightarrow> (Rejected typeError, w')
              | Returns m \<Rightarrow>
                  (Rejected (new_Error (''Network request failed: '' @
                     js_to_string (if truthy m then m else fetchError))), w'))
         | FetchResolves resp \<Rightarrow>
             (let body = read_body resp
              in if \<not> resp_ok resp then
                   (let message = extractErrorMessage (resp_statusText resp) body
                    in (Rejected (JErr ''Error'' message
                          [(''status'', JNum (NInt (resp_status resp))), (''body'', body)]), w'))
                 else (Fulfilled body, w')))"

definition ApiChatService_makeRequest ::
  "network \<Rightarrow> string \<Rightarrow> string \<Rightarrow> options \<Rightarrow> world \<Rightarrow> jsval promise \<times> world" where
  "ApiChatService_makeRequest = makeRequest None"

definition ApiAuthService_makeRequest ::
  "network \<Rightarrow> string \<Rightarrow> string \<Rightarrow> options \<Rightarrow> world \<Rightarrow> jsval promise \<times> world" where
  "ApiAuthService_makeRequest = makeRequest (Some ''include'')"

section \<open>Bodies of the public methods\<close>

text \<open>
  The body of a method is a block that runs on the state and completes or throws.
  \<open>call_async f\<close> is a call of an \<^verbatim>\<open>async\<close> function without \<^verbatim>\<open>await\<close>: it never
  throws, and its value is the promise. \<open>async body\<close> is an \<^verbatim>\<open>async\<close> method whose
  body completes with a plain value, \<open>async_returning_promise body\<close> one whose body
  completes with a promise (a \<^verbatim>\<open>return\<close> of a promise that was not awaited).
\<close>

type_synonym 'a block = "world \<Rightarrow> 'a completion \<times> world"

definition returns :: "'a \<Rightarrow> 'a block" where
  "returns v w = (Returns v, w)"

definition throws :: "jsval \<Rightarrow> 'a block" where
  "throws e w = (Throws e, w)"

definition completes :: "'a completion \<Rightarrow> 'a block" where
  "completes c w = (c, w)"

definition effect :: "(world \<Rightarrow> world) \<Rightarrow> jsval block" where
  "effect f w = (Returns JUndefined, f w)"

definition and_then :: "'a block \<Rightarrow> ('a \<Rightarrow> 'b block) \<Rightarrow> 'b block" where
  "and_then b f w =
     (case b w of (Returns v, w') \<Rightarrow> f v w' | (Throws e, w') \<Rightarrow> (Throws e, w'))"

definition try_catch :: "'a block \<Rightarrow> (jsval \<Rightarrow> 'a block) \<Rightarrow> 'a block" where
  "try_catch b h w =
     (case b w of (Returns v, w') \<Rightarrow> (Returns v, w') | (Throws e, w') \<Rightarrow> h e w')"

text \<open>\<^verbatim>\<open>try { b } finally { f }\<close>: \<open>f\<close> runs in every case, and \<open>b\<close>'s completion
  stands unless \<open>f\<close> throws.\<close>

definition try_finally :: "'a block \<Rightarrow> jsval block \<Rightarrow> 'a block" where
  "try_finally b f w =
     (case b w of (c, w') \<Rightarrow>
        (case f w' of (Returns u, w'') \<Rightarrow> (c, w'') | (Throws e, w'') \<Rightarrow> (Throws e, w'')))"

definition call_async :: "(world \<Rightarrow> 'a promise \<times> world) \<Rightarrow> 'a promise block" where
  "call_async f w = (case f w of (p, w') \<Rightarrow> (Returns p, w'))"

definition async :: "'a block \<Rightarrow> world \<Rightarrow> 'a promise \<times> world" where
  "async body w =
     (case body w of (Returns v, w') \<Rightarrow> (Fulfilled v, w') | (Throws e, w') \<Rightarrow> (Rejected e, w'))"

definition async_returning_promise :: "'a promise block \<Rightarrow> world \<Rightarrow> 'a promise \<times> world" where
  "async_returning_promise body w =
     (case body w of (Returns p, w') \<Rightarrow> (p, w') | (Throws e, w') \<Rightarrow> (Rejected e, w'))"

text \<open>The \<^verbatim>\<open>catch\<close> block all methods but two share:
  \<^verbatim>\<open>const message = ApiErrorHandler.handle(error); throw new Error(message);\<close>\<close>

definition rethrow_normalized :: "jsval \<Rightarrow> 'a block" where
  "rethrow_normalized error = (let message = handle error in throws (new_Error message))"

section \<open>The chat and expert client\<close>

text \<open>
  \<^verbatim>\<open>ApiChatService\<close>. Each method takes the network, the client's \<^verbatim>\<open>baseUrl\<close> and its
  own arguments. Nine methods return the promise of \<^verbatim>\<open>makeRequest\<close> from inside the
  \<^verbatim>\<open>try\<close> block without awaiting it; \<^verbatim>\<open>claimConversation\<close> and
  \<^verbatim>\<open>unclaimConversation\<close> await it and return nothing; three throw at once.
  The arguments of the call are evaluated inside the \<^verbatim>\<open>try\<close> block; on the values of
  this model neither \<^verbatim>\<open>encodeURIComponent\<close> nor \<^verbatim>\<open>JSON.stringify\<close> throws.
\<close>

definition getConversations :: "network \<Rightarrow> string \<Rightarrow> world \<Rightarrow> jsval promise \<times> world" where
  "getConversations net baseUrl =
     async_returning_promise
       (try_catch
          (call_async (ApiChatService_makeRequest net baseUrl ''/conversations''
             \<lparr>opt_method = ''GET'', opt_body = None\<rparr>))
          rethrow_normalized)"

definition getConversation :: "network \<Rightarrow> string \<Rightarrow> string \<Rightarrow> world \<Rightarrow> jsval promise \<times> world" where
  "getConversation net baseUrl id' =
     async_returning_promise
       (try_catch
          (call_async (ApiChatService_makeRequest net baseUrl
             (''/conversations/'' @ encodeURIComponent id')
             \<lparr>opt_method = ''GET'', opt_body = None\<rparr>))
          rethrow_normalized)"

definition createConversation :: "network \<Rightarrow> string \<Rightarrow> jsval \<Rightarrow> world \<Rightarrow> jsval promise \<times> world" where
  "createConversation net baseUrl request =
     async_returning_promise
       (try_catch
          (call_async (ApiChatService_makeRequest net baseUrl ''/conversations''
             \<lparr>opt_method = ''POST'', opt_body = Some request\<rparr>))
          rethrow_normalized)"

definition updateConversation :: "string \<Rightarrow> jsval \<Rightarrow> world \<Rightarrow> jsval promise \<times> world" where
  "updateConversation id' request =
     async (throws (new_Error ''updateConversation method not implemented''))"

definition deleteConversation :: "string \<Rightarrow> world \<Rightarrow> jsval promise \<times> world" where
  "deleteConversation id' =
     async (throws (new_Error ''deleteConversation method not implemented''))"

definition getMessages :: "network \<Rightarrow> string \<Rightarrow> string \<Rightarrow> world \<Rightarrow> jsval promise \<times> world" where
  "getMessages net baseUrl conversationId =
     async_returning_promise
       (try_catch
          (call_async (ApiChatService_makeRequest net baseUrl
             (''/conversations/'' @ encodeURIComponent conversationId @ ''/messages'')
             \<lparr>opt_method = ''GET'', opt_body = None\<rparr>))
          rethrow_normalized)"

definition sendMessage :: "network \<Rightarrow> string \<Rightarrow> jsval \<Rightarrow> world \<Rightarrow> jsval promise \<times> world" where
  "sendMessage net baseUrl request =
     async_returning_promise
       (try_catch
          (call_async (ApiChatService_makeRequest net baseUrl ''/messages''
             \<lparr>opt_method = ''POST'', opt_body = Some request\<rparr>))
          rethrow_normalized)"

definition markMessageAsRead :: "string \<Rightarrow> world \<Rightarrow> jsval promise \<times> world" where
  "markMessageAsRead messageId =
     async (throws (new_Error ''markMessageAsRead method not implemented''))"

definition getExpertQueue :: "network \<Rightarrow> string \<Rightarrow> world \<Rightarrow> jsval promise \<times> world" where
  "getExpertQueue net baseUrl =
     async_returning_promise
       (try_catch
          (call_async (ApiChatService_makeRequest net baseUrl ''/expert/queue''
             \<lparr>opt_method = ''GET'', opt_body = None\<rparr>))
          rethrow_normalized)"

definition claimConversation :: "network \<Rightarrow> string \<Rightarrow> string \<Rightarrow> world \<Rightarrow> jsval promise \<times> world" where
  "claimConversation net baseUrl conversationId =
     async
       (try_catch
          (and_then
             (call_async (ApiChatService_makeRequest net baseUrl
                (''/expert/conversations/'' @ encodeURIComponent conversationId @ ''/claim'')
                \<lparr>opt_method = ''POST'', opt_body = None\<rparr>))
             (\<lambda>p. and_then (completes (await p)) (\<lambda>r. returns JUndefined)))
          rethrow_normalized)"

definition unclaimConversation :: "network \<Rightarrow> string \<Rightarrow> string \<Rightarrow> world \<Rightarrow> jsval promise \<times> world" where
  "unclaimConversation net baseUrl conversationId =
     async
       (try_catch
          (and_then
             (call_async (ApiChatService_makeRequest net baseUrl
                (''/expert/conversations/'' @ encodeURIComponent conversationId @ ''/unclaim'')
                \<lparr>opt_method = ''POST'', opt_body = None\<rparr>))
             (\<lambda>p. and_then (completes (await p)) (\<lambda>r. returns JUndefined)))
          rethrow_normalized)"

definition getExpertProfile :: "network \<Rightarrow> string \<Rightarrow> world \<Rightarrow> jsval promise \<times> world" where
  "getExpertProfile net baseUrl =
     async_returning_promise
       (try_catch
          (call_async (ApiChatService_makeRequest net baseUrl ''/expert/profile''
             \<lparr>opt_method = ''GET'', opt_body = None\<rparr>))
          rethrow_normalized)"

definition updateExpertProfile :: "network \<Rightarrow> string \<Rightarrow> jsval \<Rightarrow> world \<Rightarrow> jsval promise \<times> world" where
  "updateExpertProfile net baseUrl request =
     async_returning_promise
       (try_catch
          (call_async (ApiChatService_makeRequest net baseUrl ''/expert/profile''
             \<lparr>opt_method = ''PUT'', opt_body = Some request\<rparr>))
          rethrow_normalized)"

definition getExpertAssignmentHistory :: "network \<Rightarrow> string \<Rightarrow> world \<Rightarrow> jsval promise \<times> world" where
  "getExpertAssignmentHistory net baseUrl =
     async_returning_promise
       (try_catch
          (call_async (ApiChatService_makeRequest net baseUrl ''/expert/assignments/history''
             \<lparr>opt_method = ''GET'', opt_body = None\<rparr>))
          rethrow_normalized)"

section \<open>The authentication client\<close>

text \<open>
  \<^verbatim>\<open>ApiAuthService\<close>. Every method awaits the promise of \<^verbatim>\<open>makeRequest\<close> inside its
  \<^verbatim>\<open>try\<close> block. \<^verbatim>\<open>res.token\<close> and \<^verbatim>\<open>res.user\<close> are plain property reads, which
  throw inside the \<^verbatim>\<open>try\<close> when the response had no body.
\<close>

definition login :: "network \<Rightarrow> string \<Rightarrow> string \<Rightarrow> string \<Rightarrow> world \<Rightarrow> jsval promise \<times> world" where
  "login net baseUrl username password =
     async
       (try_catch
          (and_then
             (call_async (ApiAuthService_makeRequest net baseUrl ''/auth/login''
                \<lparr>opt_method = ''POST'',
                 opt_body = Some (JObj [(''username'', JStr username), (''password'', JStr password)])\<rparr>))
             (\<lambda>p. and_then (completes (await p))
               (\<lambda>res. and_then (completes (get_prop res ''token''))
                 (\<lambda>token. and_then (effect (setToken token))
                   (\<lambda>u. completes (get_prop res ''user''))))))
          rethrow_normalized)"

definition register :: "network \<Rightarrow> string \<Rightarrow> jsval \<Rightarrow> world \<Rightarrow> jsval promise \<times> world" where
  "register net baseUrl userData =
     async
       (try_catch
          (and_then
             (call_async (ApiAuthService_makeRequest net baseUrl ''/auth/register''
                \<lparr>opt_method = ''POST'', opt_body = Some userData\<rparr>))
             (\<lambda>p. and_then (completes (await p))
               (\<lambda>res. and_then (completes (get_prop res ''token''))
                 (\<lambda>token. and_then (effect (setToken token))
                   (\<lambda>u. completes (get_prop res ''user''))))))
          rethrow_normalized)"

definition logout :: "network \<Rightarrow> string \<Rightarrow> world \<Rightarrow> jsval promise \<times> world" where
  "logout net baseUrl =
     async
       (try_finally
          (try_catch
             (and_then
                (call_async (ApiAuthService_makeRequest net baseUrl ''/auth/logout''
                   \<lparr>opt_method = ''POST'', opt_body = None\<rparr>))
                (\<lambda>p. and_then (completes (await p)) (\<lambda>r. returns JUndefined)))
             (\<lambda>e. let message = handle e in returns JUndefined))
          (effect clearToken))"

definition refreshToken :: "network \<Rightarrow> string \<Rightarrow> world \<Rightarrow> jsval promise \<times> world" where
  "refreshToken net baseUrl =
     async
       (try_catch
          (and_then
             (call_async (ApiAuthService_makeRequest net baseUrl ''/auth/refresh''
                \<lparr>opt_method = ''POST'', opt_body = None\<rparr>))
             (\<lambda>p. and_then (completes (await p))
               (\<lambda>res. and_then (completes (get_prop res ''token''))
                 (\<lambda>token. and_then (effect (setToken token))
                   (\<lambda>u. completes (get_prop res ''user''))))))
          rethrow_normalized)"

definition getCurrentUser :: "network \<Rightarrow> string \<Rightarrow> world \<Rightarrow> jsval promise \<times> world" where
  "getCurrentUser net baseUrl =
     async
       (try_catch
          (and_then
             (call_async (ApiAuthService_makeRequest net baseUrl ''/auth/me''
                \<lparr>opt_method = ''GET'', opt_body = None\<rparr>))
             (\<lambda>p. completes (await p)))
          (\<lambda>e. if prop_of e ''status'' = JNum (NInt 401) \<or> prop_of e ''status'' = JNum (NInt 403)
                then and_then (effect clearToken) (\<lambda>u. returns JNull)
                else rethrow_normalized e))"

section \<open>Facts about the pipeline\<close>

lemma block_simps:
  "returns v w = (Returns v, w)"
  "throws e w = (Throws e, w)"
  "completes c w = (c, w)"
  "effect f w = (Returns JUndefined, f w)"
  by (simp_all add: returns_def throws_def completes_def effect_def)

text \<open>\<^verbatim>\<open>makeRequest\<close> calls \<^verbatim>\<open>fetch\<close> once and leaves the token store alone.\<close>

lemma makeRequest_world:
  "snd (makeRequest cred net baseUrl endpoint opts w) =
     w\<lparr>fetch_log := fetch_log w @ [request_for cred baseUrl endpoint opts w]\<rparr>"
  by (simp add: makeRequest_def Let_def split: fetch_result.splits completion.splits)

lemma makeRequest_pair:
  "makeRequest cred net baseUrl endpoint opts w =
     (fst (makeRequest cred net baseUrl endpoint opts w),
      w\<lparr>fetch_log := fetch_log w @ [request_for cred baseUrl endpoint opts w]\<rparr>)"
  by (metis makeRequest_world prod.collapse)

lemma makeRequest_token:
  "stored_token (snd (makeRequest cred net baseUrl endpoint opts w)) = stored_token w"
  by (simp add: makeRequest_world)

lemma prop_of_truthy: "prop_of v k \<noteq> JUndefined \<Longrightarrow> truthy v"
  by (cases v) simp_all

lemma array_join_strings: "array_join (map JStr ss) sep = join_strings sep ss"
  by (simp add: array_join_def comp_def)

text \<open>The three branches of \<^verbatim>\<open>extractErrorMessage\<close>.\<close>

lemma extractErrorMessage_error:
  assumes "prop_of payload ''error'' = JStr e" and "e \<noteq> []"
  shows "extractErrorMessage statusText payload = e"
proof -
  from assms(1) have "truthy payload"
    by (intro prop_of_truthy [of payload "''error''"]) simp
  with assms show ?thesis
    by (simp add: extractErrorMessage_def Let_def)
qed

lemma extractErrorMessage_errors:
  assumes "\<not> (\<exists>e. prop_of payload ''error'' = JStr e \<and> e \<noteq> [])"
      and "prop_of payload ''errors'' = JArr es" and "es \<noteq> []"
  shows "extractErrorMessage statusText payload = array_join es ''; ''"
proof -
  from assms(2) have t: "truthy payload"
    by (intro prop_of_truthy [of payload "''errors''"]) simp
  from assms(1)
  have "(truthy (prop_of payload ''error'') \<and> typeof_string (prop_of payload ''error'')) = False"
    by (cases "prop_of payload ''error''") simp_all
  with t assms(2,3) show ?thesis
    by (auto simp: extractErrorMessage_def Let_def)
qed

lemma extractErrorMessage_fallback:
  assumes "\<not> (\<exists>e. prop_of payload ''error'' = JStr e \<and> e \<noteq> [])"
      and "\<not> (\<exists>es. prop_of payload ''errors'' = JArr es \<and> es \<noteq> [])"
  shows "extractErrorMessage statusText payload =
           (if statusText \<noteq> [] then statusText else ''Request failed'')"
proof -
  from assms(1)
  have "(truthy (prop_of payload ''error'') \<and> typeof_string (prop_of payload ''error'')) = False"
    by (cases "prop_of payload ''error''") simp_all
  with assms(2) show ?thesis
    by (cases "prop_of payload ''errors''") (auto simp: extractErrorMessage_def Let_def)
qed

section \<open>The chat client and failures of the pipeline\<close>

text \<open>
  A method that returns the promise of \<^verbatim>\<open>makeRequest\<close> without awaiting it is
  \<^verbatim>\<open>makeRequest\<close> itself: its \<^verbatim>\<open>catch\<close> block never runs. The two methods that await
  do normalize.
\<close>

lemma getConversations_is_makeRequest:
  "getConversations net baseUrl w =
     ApiChatService_makeRequest net baseUrl ''/conversations''
       \<lparr>opt_method = ''GET'', opt_body = None\<rparr> w"
  by (simp add: getConversations_def async_returning_promise_def try_catch_def call_async_def
        split: prod.splits)

lemma claimConversation_normalizes:
  assumes "fst (ApiChatService_makeRequest net baseUrl
             (''/expert/conversations/'' @ encodeURIComponent conversationId @ ''/claim'')
             \<lparr>opt_method = ''POST'', opt_body = None\<rparr> w) = Rejected e"
  shows "fst (claimConversation net baseUrl conversationId w) =
           Rejected (JErr ''Error'' (handle e) [])"
proof -
  obtain w' where "ApiChatService_makeRequest net baseUrl
             (''/expert/conversations/'' @ encodeURIComponent conversationId @ ''/claim'')
             \<lparr>opt_method = ''POST'', opt_body = None\<rparr> w = (Rejected e, w')"
    using assms by (metis prod.collapse)
  then show ?thesis
    by (simp add: claimConversation_def async_def try_catch_def and_then_def call_async_def
          block_simps rethrow_normalized_def new_Error_def Let_def)
qed

text \<open>
  C1. Every public operation of the chat and expert client is claimed to catch a
  rejection of the pipeline, normalize it and reject with a message-only error.
  \<^verbatim>\<open>getConversations\<close> does not: against a server answering 401 with the JSON body
  \<^verbatim>\<open>{}\<close> it rejects with the pipeline's own error, whose message is the reason
  phrase and which still carries the status and the body, where the normalizer would
  have given the fixed message for 401.
\<close>

theorem getConversations_rejection_not_normalized:
  "fst (getConversations
         (\<lambda>req. FetchResolves \<lparr>resp_status = 401, resp_statusText = ''Unauthorized'',
            resp_content_type = Some ''application/json'', resp_json = Some (JObj []),
            resp_text = None\<rparr>)
         ''https://api.example.com'' \<lparr>stored_token = None, fetch_log = []\<rparr>)
     = Rejected (JErr ''Error'' ''Unauthorized''
         [(''status'', JNum (NInt 401)), (''body'', JObj [])])
   \<and> handle (JErr ''Error'' ''Unauthorized''
         [(''status'', JNum (NInt 401)), (''body'', JObj [])])
       = ''Authentication required. Please log in again.''"
  by (simp add: getConversations_def async_returning_promise_def try_catch_def call_async_def
        ApiChatService_makeRequest_def makeRequest_def read_body_def resp_ok_def
        extractErrorMessage_def startsWith_def handle_def Let_def)

section \<open>Non-success statuses\<close>

text \<open>
  C2. For a response whose status is outside 200..299 the pipeline rejects with an error
  that carries the numeric status and the body as read. Its message is the body's
  \<^verbatim>\<open>error\<close> field when that is a non-empty string; else the body's \<^verbatim>\<open>errors\<close>
  array, when it is a non-empty array, joined with \<^verbatim>\<open>"; "\<close>; else the reason phrase
  when it is not empty; else \<^verbatim>\<open>Request failed\<close>.
\<close>

theorem makeRequest_error_status:
  assumes "net (request_for cred baseUrl endpoint opts w) = FetchResolves resp"
      and "resp_status resp < 200 \<or> 299 < resp_status resp"
  shows "\<exists>message.
           fst (makeRequest cred net baseUrl endpoint opts w) =
             Rejected (JErr ''Error'' message
               [(''status'', JNum (NInt (resp_status resp))), (''body'', read_body resp)])
         \<and> (\<forall>e. prop_of (read_body resp) ''error'' = JStr e \<and> e \<noteq> [] \<longrightarrow> message = e)
         \<and> (\<forall>es. \<not> (\<exists>e. prop_of (read_body resp) ''error'' = JStr e \<and> e \<noteq> [])
                \<and> prop_of (read_body resp) ''errors'' = JArr es \<and> es \<noteq> []
                \<longrightarrow> message = array_join es ''; '')
         \<and> (\<not> (\<exists>e. prop_of (read_body resp) ''error'' = JStr e \<and> e \<noteq> [])
              \<and> \<not> (\<exists>es. prop_of (read_body resp) ''errors'' = JArr es \<and> es \<noteq> [])
              \<longrightarrow> message = (if resp_statusText resp \<noteq> [] then resp_statusText resp
                              else ''Request failed''))"
proof -
  let ?m = "extractErrorMessage (resp_statusText resp) (read_body resp)"
  from assms(2) have "\<not> resp_ok resp"
    by (auto simp: resp_ok_def)
  with assms(1)
  have "fst (makeRequest cred net baseUrl endpoint opts w) =
          Rejected (JErr ''Error'' ?m
            [(''status'', JNum (NInt (resp_status resp))), (''body'', read_body resp)])"
    by (simp add: makeRequest_def Let_def)
  moreover have "\<forall>e. prop_of (read_body resp) ''error'' = JStr e \<and> e \<noteq> [] \<longrightarrow> ?m = e"
    using extractErrorMessage_error by blast
  moreover have "\<forall>es. \<not> (\<exists>e. prop_of (read_body resp) ''error'' = JStr e \<and> e \<noteq> [])
                \<and> prop_of (read_body resp) ''errors'' = JArr es \<and> es \<noteq> []
                \<longrightarrow> ?m = array_join es ''; ''"
    using extractErrorMessage_errors by blast
  moreover have "\<not> (\<exists>e. prop_of (read_body resp) ''error'' = JStr e \<and> e \<noteq> [])
              \<and> \<not> (\<exists>es. prop_of (read_body resp) ''errors'' = JArr es \<and> es \<noteq> [])
              \<longrightarrow> ?m = (if resp_statusText resp \<noteq> [] then resp_statusText resp
                              else ''Request failed'')"
    using extractErrorMessage_fallback by blast
  ultimately show ?thesis by blast
qed

text \<open>The spec's example: the body \<^verbatim>\<open>{errors: ["A","B"]}\<close> gives the message \<^verbatim>\<open>A; B\<close>.\<close>

theorem makeRequest_error_status_witness:
  "fst (makeRequest None
         (\<lambda>req. FetchResolves \<lparr>resp_status = 422, resp_statusText = ''Unprocessable Entity'',
            resp_content_type = Some ''application/json'',
            resp_json = Some (JObj [(''errors'', JArr [JStr ''A'', JStr ''B''])]),
            resp_text = None\<rparr>)
         ''https://api.example.com'' ''/messages''
         \<lparr>opt_method = ''POST'', opt_body = Some (JObj [])\<rparr>
         \<lparr>stored_token = None, fetch_log = []\<rparr>)
     = Rejected (JErr ''Error'' ''A; B''
         [(''status'', JNum (NInt 422)),
          (''body'', JObj [(''errors'', JArr [JStr ''A'', JStr ''B''])])])"
  using makeRequest_error_status
    [where net = "\<lambda>req. FetchResolves \<lparr>resp_status = 422, resp_statusText = ''Unprocessable Entity'',
            resp_content_type = Some ''application/json'',
            resp_json = Some (JObj [(''errors'', JArr [JStr ''A'', JStr ''B''])]),
            resp_text = None\<rparr>"
       and resp = "\<lparr>resp_status = 422, resp_statusText = ''Unprocessable Entity'',
            resp_content_type = Some ''application/json'',
            resp_json = Some (JObj [(''errors'', JArr [JStr ''A'', JStr ''B''])]),
            resp_text = None\<rparr>"
       and cred = None and baseUrl = "''https://api.example.com''" and endpoint = "''/messages''"
       and opts = "\<lparr>opt_method = ''POST'', opt_body = Some (JObj [])\<rparr>"
       and w = "\<lparr>stored_token = None, fetch_log = []\<rparr>"]
  by (auto simp: read_body_def startsWith_def array_join_def)

section \<open>The normalizer's table\<close>

text \<open>
  C3. For every input object whose \<^verbatim>\<open>status\<close> is one of 400, 401, 403, 404, 422 and
  500, \<^verbatim>\<open>ApiErrorHandler.handle\<close> returns the fixed message of that code, whatever
  the message, the body and the other properties of the input are.
\<close>

theorem handle_recognized_status:
  assumes "prop_of error ''status'' = JNum (NInt c)"
  shows "(c = 400 \<longrightarrow> handle error = ''Invalid request parameters. Please check your input.'')
       \<and> (c = 401 \<longrightarrow> handle error = ''Authentication required. Please log in again.'')
       \<and> (c = 403 \<longrightarrow> handle error = ''You do not have permission to perform this action.'')
       \<and> (c = 404 \<longrightarrow> handle error = ''The requested resource could not be found.'')
       \<and> (c = 422 \<longrightarrow> handle error = ''Validation failed. Please correct the highlighted fields.'')
       \<and> (c = 500 \<longrightarrow> handle error = ''A server error occurred. Please try again later.'')"
  using assms by (cases error) (simp_all add: handle_def)

theorem handle_recognized_status_witness:
  "prop_of (JErr ''Error'' ''Unauthorized''
      [(''status'', JNum (NInt 401)), (''body'', JObj [(''error'', JStr ''Unauthorized'')])])
     ''status'' = JNum (NInt 401)
   \<and> handle (JErr ''Error'' ''Unauthorized''
      [(''status'', JNum (NInt 401)), (''body'', JObj [(''error'', JStr ''Unauthorized'')])])
       = ''Authentication required. Please log in again.''"
  using handle_recognized_status
    [of "JErr ''Error'' ''Unauthorized''
      [(''status'', JNum (NInt 401)), (''body'', JObj [(''error'', JStr ''Unauthorized'')])]" 401]
  by simp

text \<open>
  C4, as stated, says that an input carrying an unrecognized status is answered with
  its own string and not with the generic fallback. An error with status 418 and the
  message \<^verbatim>\<open>teapot\<close> is answered with the generic fallback.
\<close>

theorem handle_unrecognized_status_counterexample:
  "prop_of (JErr ''Error'' ''teapot'' [(''status'', JNum (NInt 418))]) ''status'' = JNum (NInt 418)
   \<and> prop_of (JErr ''Error'' ''teapot'' [(''status'', JNum (NInt 418))]) ''message'' = JStr ''teapot''
   \<and> handle (JErr ''Error'' ''teapot'' [(''status'', JNum (NInt 418))])
        = ''An unexpected error occurred. Please try again later.''
   \<and> handle (JErr ''Error'' ''teapot'' [(''status'', JNum (NInt 418))]) \<noteq> ''teapot''"
  by (simp add: handle_def)

text \<open>
  C4, amended. For every input that is a string, \<^verbatim>\<open>handle\<close> returns the string
  itself; for every input of type object whose \<^verbatim>\<open>status\<close> is none of the six
  recognized codes (an unrecognized status, or no status), it returns the generic
  fallback.
\<close>

theorem handle_string_or_fallback:
  "handle (JStr s) = s
   \<and> (typeof_object error \<and>
        prop_of error ''status'' \<notin>
          {JNum (NInt 400), JNum (NInt 401), JNum (NInt 403),
           JNum (NInt 404), JNum (NInt 422), JNum (NInt 500)}
      \<longrightarrow> handle error = ''An unexpected error occurred. Please try again later.'')"
  by (cases error) (simp_all add: handle_def)

theorem handle_string_or_fallback_witness:
  "handle (JStr ''boom'') = ''boom''
   \<and> typeof_object (JObj [(''status'', JNum (NInt 418))])
   \<and> handle (JObj [(''status'', JNum (NInt 418))])
       = ''An unexpected error occurred. Please try again later.''"
  using handle_string_or_fallback [of "''boom''" "JObj [(''status'', JNum (NInt 418))]"]
  by simp

section \<open>URLs\<close>




section \<open>Transport failures and successes\<close>

text \<open>
  C8. When \<^verbatim>\<open>fetch\<close> itself rejects, with any value but \<^verbatim>\<open>null\<close> and
  \<^verbatim>\<open>undefined\<close>, the pipeline rejects with an error whose message is
  \<^verbatim>\<open>Network request failed: \<close> followed by the text of the failure, which is the
  failure's message when it has a non-empty one; the error has no status; and
  \<^verbatim>\<open>fetch\<close> was called once.
\<close>

theorem makeRequest_network_failure:
  assumes "net (request_for cred baseUrl endpoint opts w) = FetchRejects fetchError"
      and "\<not> is_nullish fetchError"
  shows "\<exists>text.
           fst (makeRequest cred net baseUrl endpoint opts w) =
             Rejected (JErr ''Error'' (''Network request failed: '' @ text) [])
         \<and> text = js_to_string (if truthy (prop_of fetchError ''message'')
                                 then prop_of fetchError ''message'' else fetchError)
         \<and> (\<forall>m. prop_of fetchError ''message'' = JStr m \<and> m \<noteq> [] \<longrightarrow> text = m)
         \<and> prop_of (JErr ''Error'' (''Network request failed: '' @ text) []) ''status'' = JUndefined
         \<and> fetch_log (snd (makeRequest cred net baseUrl endpoint opts w)) =
             fetch_log w @ [request_for cred baseUrl endpoint opts w]"
  using assms
  by (auto simp: makeRequest_def get_prop_def new_Error_def Let_def)

theorem makeRequest_network_failure_witness:
  "makeRequest None (\<lambda>req. FetchRejects (JErr ''TypeError'' ''Failed to fetch'' []))
       ''https://api.example.com'' ''conversations''
       \<lparr>opt_method = ''GET'', opt_body = None\<rparr> \<lparr>stored_token = None, fetch_log = []\<rparr>
     = (Rejected (JErr ''Error'' ''Network request failed: Failed to fetch'' []),
        \<lparr>stored_token = None,
         fetch_log = [\<lparr>req_url = ''https://api.example.com/conversations'', req_method = ''GET'',
                       req_body = None,
                       req_headers = [(''Content-Type'', ''application/json'')],
                       req_credentials = None\<rparr>]\<rparr>)"
  using makeRequest_network_failure
    [where net = "\<lambda>req. FetchRejects (JErr ''TypeError'' ''Failed to fetch'' [])"
       and fetchError = "JErr ''TypeError'' ''Failed to fetch'' []"
       and cred = None and baseUrl = "''https://api.example.com''"
       and endpoint = "''conversations''"
       and opts = "\<lparr>opt_method = ''GET'', opt_body = None\<rparr>"
       and w = "\<lparr>stored_token = None, fetch_log = []\<rparr>"]
  by (auto simp: request_for_def buildUrl_def startsWith_def getToken_def Let_def
        prod_eq_iff makeRequest_world)

text \<open>
  C9. For a response with a status in 200..299, a content type that contains
  \<^verbatim>\<open>application/json\<close> and a body that parses, the pipeline resolves with the parsed
  body itself.
\<close>

theorem makeRequest_success_identity:
  assumes "net (request_for cred baseUrl endpoint opts w) = FetchResolves resp"
      and "200 \<le> resp_status resp" and "resp_status resp \<le> 299"
      and "resp_content_type resp = Some ct"
      and "str_includes ct ''application/json''"
      and "resp_json resp = Some parsed"
  shows "fst (makeRequest cred net baseUrl endpoint opts w) = Fulfilled parsed"
  using assms by (simp add: makeRequest_def read_body_def resp_ok_def Let_def)

theorem makeRequest_success_identity_witness:
  "str_includes ''application/json; charset=utf-8'' ''application/json''
   \<and> fst (makeRequest None
         (\<lambda>req. FetchResolves \<lparr>resp_status = 200, resp_statusText = ''OK'',
            resp_content_type = Some ''application/json; charset=utf-8'',
            resp_json = Some (JArr [JObj [(''id'', JStr ''1'')]]), resp_text = None\<rparr>)
         ''https://api.example.com'' ''/conversations''
         \<lparr>opt_method = ''GET'', opt_body = None\<rparr> \<lparr>stored_token = None, fetch_log = []\<rparr>)
     = Fulfilled (JArr [JObj [(''id'', JStr ''1'')]])"
  using makeRequest_success_identity
    [where net = "\<lambda>req. FetchResolves \<lparr>resp_status = 200, resp_statusText = ''OK'',
            resp_content_type = Some ''application/json; charset=utf-8'',
            resp_json = Some (JArr [JObj [(''id'', JStr ''1'')]]), resp_text = None\<rparr>"
       and resp = "\<lparr>resp_status = 200, resp_statusText = ''OK'',
            resp_content_type = Some ''application/json; charset=utf-8'',
            resp_json = Some (JArr [JObj [(''id'', JStr ''1'')]]), resp_text = None\<rparr>"
       and ct = "''application/json; charset=utf-8''"
       and parsed = "JArr [JObj [(''id'', JStr ''1'')]]"
       and cred = None and baseUrl = "''https://api.example.com''"
       and endpoint = "''/conversations''"
       and opts = "\<lparr>opt_method = ''GET'', opt_body = None\<rparr>"
       and w = "\<lparr>stored_token = None, fetch_log = []\<rparr>"]
  by (simp add: startsWith_def)

section \<open>The authentication client and the token store\<close>

text \<open>
  C5. \<^verbatim>\<open>logout()\<close> always resolves, and afterwards the token store is empty: the
  token is cleared by \<^verbatim>\<open>clearToken\<close> on the state the request left, whatever the
  network did with the request.
\<close>

theorem logout_always_clears_token:
  "logout net baseUrl w =
     (Fulfilled JUndefined,
      clearToken (w\<lparr>fetch_log := fetch_log w @
         [request_for (Some ''include'') baseUrl ''/auth/logout''
            \<lparr>opt_method = ''POST'', opt_body = None\<rparr> w]\<rparr>))
   \<and> stored_token (snd (logout net baseUrl w)) = None"
proof -
  let ?opts = "\<lparr>opt_method = ''POST'', opt_body = None\<rparr>"
  let ?w' = "w\<lparr>fetch_log := fetch_log w @
               [request_for (Some ''include'') baseUrl ''/auth/logout'' ?opts w]\<rparr>"
  obtain p where p: "makeRequest (Some ''include'') net baseUrl ''/auth/logout'' ?opts w = (p, ?w')"
    using makeRequest_pair by blast
  have "logout net baseUrl w = (Fulfilled JUndefined, clearToken ?w')"
    using p
    by (cases p)
       (simp_all add: logout_def ApiAuthService_makeRequest_def async_def try_finally_def
          try_catch_def and_then_def call_async_def block_simps Let_def)
  then show ?thesis by (simp add: clearToken_def)
qed

text \<open>A logout whose request fails in the network, and one the server refuses.\<close>

theorem logout_always_clears_token_witness:
  "fst (logout (\<lambda>req. FetchRejects (JErr ''TypeError'' ''Failed to fetch'' []))
          ''https://api.example.com'' \<lparr>stored_token = Some (JStr ''t0''), fetch_log = []\<rparr>) = Fulfilled JUndefined
   \<and> stored_token (snd (logout (\<lambda>req. FetchRejects (JErr ''TypeError'' ''Failed to fetch'' []))
          ''https://api.example.com'' \<lparr>stored_token = Some (JStr ''t0''), fetch_log = []\<rparr>)) = None
   \<and> fst (logout (\<lambda>req. FetchResolves \<lparr>resp_status = 500, resp_statusText = ''Internal Server Error'',
            resp_content_type = Some ''text/html'', resp_json = None,
            resp_text = Some ''oops''\<rparr>) ''https://api.example.com'' \<lparr>stored_token = Some (JStr ''t0''), fetch_log = []\<rparr>) = Fulfilled JUndefined
   \<and> stored_token (snd (logout (\<lambda>req. FetchResolves \<lparr>resp_status = 500, resp_statusText = ''Internal Server Error'',
            resp_content_type = Some ''text/html'', resp_json = None,
            resp_text = Some ''oops''\<rparr>) ''https://api.example.com'' \<lparr>stored_token = Some (JStr ''t0''), fetch_log = []\<rparr>)) = None"
  using logout_always_clears_token
          [of "\<lambda>req. FetchRejects (JErr ''TypeError'' ''Failed to fetch'' [])"
              "''https://api.example.com''" "\<lparr>stored_token = Some (JStr ''t0''), fetch_log = []\<rparr>"]
        logout_always_clears_token [of "(\<lambda>req. FetchResolves \<lparr>resp_status = 500, resp_statusText = ''Internal Server Error'',
            resp_content_type = Some ''text/html'', resp_json = None,
            resp_text = Some ''oops''\<rparr>)" "''https://api.example.com''" "\<lparr>stored_token = Some (JStr ''t0''), fetch_log = []\<rparr>"]
  by (simp add: clearToken_def)

text \<open>
  C6. When the request of \<^verbatim>\<open>getCurrentUser()\<close> is rejected with an error of status
  401 or 403, the method clears the token and resolves with \<^verbatim>\<open>null\<close>; when it is
  rejected with anything else, the token stays as it was and the method rejects with
  an error that has only a message, the normalizer's.
\<close>

theorem getCurrentUser_failure:
  assumes "fst (ApiAuthService_makeRequest net baseUrl ''/auth/me''
                  \<lparr>opt_method = ''GET'', opt_body = None\<rparr> w) = Rejected e"
  shows "(prop_of e ''status'' = JNum (NInt 401) \<or> prop_of e ''status'' = JNum (NInt 403) \<longrightarrow>
            fst (getCurrentUser net baseUrl w) = Fulfilled JNull
            \<and> stored_token (snd (getCurrentUser net baseUrl w)) = None)
       \<and> (prop_of e ''status'' \<noteq> JNum (NInt 401) \<and> prop_of e ''status'' \<noteq> JNum (NInt 403) \<longrightarrow>
            fst (getCurrentUser net baseUrl w) = Rejected (JErr ''Error'' (handle e) [])
            \<and> stored_token (snd (getCurrentUser net baseUrl w)) = stored_token w)"
proof -
  let ?opts = "\<lparr>opt_method = ''GET'', opt_body = None\<rparr>"
  let ?w' = "w\<lparr>fetch_log := fetch_log w @
               [request_for (Some ''include'') baseUrl ''/auth/me'' ?opts w]\<rparr>"
  have p: "makeRequest (Some ''include'') net baseUrl ''/auth/me'' ?opts w = (Rejected e, ?w')"
    using assms makeRequest_pair [of "Some ''include''" net baseUrl "''/auth/me''" ?opts w]
    by (simp add: ApiAuthService_makeRequest_def)
  show ?thesis
    using p
    by (simp add: getCurrentUser_def ApiAuthService_makeRequest_def async_def try_catch_def
          and_then_def call_async_def block_simps rethrow_normalized_def new_Error_def
          clearToken_def Let_def)
qed

theorem getCurrentUser_failure_witness:
  "fst (ApiAuthService_makeRequest (\<lambda>req. FetchResolves \<lparr>resp_status = 401, resp_statusText = ''Unauthorized'',
            resp_content_type = Some ''application/json'', resp_json = Some (JObj []),
            resp_text = None\<rparr>) ''https://api.example.com'' ''/auth/me''
          \<lparr>opt_method = ''GET'', opt_body = None\<rparr> \<lparr>stored_token = Some (JStr ''t0''), fetch_log = []\<rparr>)
     = Rejected (JErr ''Error'' ''Unauthorized'' [(''status'', JNum (NInt 401)), (''body'', JObj [])])
   \<and> fst (getCurrentUser (\<lambda>req. FetchResolves \<lparr>resp_status = 401, resp_statusText = ''Unauthorized'',
            resp_content_type = Some ''application/json'', resp_json = Some (JObj []),
            resp_text = None\<rparr>) ''https://api.example.com'' \<lparr>stored_token = Some (JStr ''t0''), fetch_log = []\<rparr>) = Fulfilled JNull
   \<and> stored_token (snd (getCurrentUser (\<lambda>req. FetchResolves \<lparr>resp_status = 401, resp_statusText = ''Unauthorized'',
            resp_content_type = Some ''application/json'', resp_json = Some (JObj []),
            resp_text = None\<rparr>) ''https://api.example.com'' \<lparr>stored_token = Some (JStr ''t0''), fetch_log = []\<rparr>)) = None
   \<and> fst (ApiAuthService_makeRequest (\<lambda>req. FetchResolves \<lparr>resp_status = 500, resp_statusText = ''Internal Server Error'',
            resp_content_type = Some ''text/html'', resp_json = None,
            resp_text = Some ''oops''\<rparr>) ''https://api.example.com'' ''/auth/me''
          \<lparr>opt_method = ''GET'', opt_body = None\<rparr> \<lparr>stored_token = Some (JStr ''t0''), fetch_log = []\<rparr>)
     = Rejected (JErr ''Error'' ''Internal Server Error''
         [(''status'', JNum (NInt 500)), (''body'', JStr ''oops'')])
   \<and> fst (getCurrentUser (\<lambda>req. FetchResolves \<lparr>resp_status = 500, resp_statusText = ''Internal Server Error'',
            resp_content_type = Some ''text/html'', resp_json = None,
            resp_text = Some ''oops''\<rparr>) ''https://api.example.com'' \<lparr>stored_token = Some (JStr ''t0''), fetch_log = []\<rparr>)
     = Rejected (JErr ''Error'' ''A server error occurred. Please try again later.'' [])
   \<and> stored_token (snd (getCurrentUser (\<lambda>req. FetchResolves \<lparr>resp_status = 500, resp_statusText = ''Internal Server Error'',
            resp_content_type = Some ''text/html'', resp_json = None,
            resp_text = Some ''oops''\<rparr>) ''https://api.example.com'' \<lparr>stored_token = Some (JStr ''t0''), fetch_log = []\<rparr>)) = Some (JStr ''t0'')"
proof -
  have a: "fst (ApiAuthService_makeRequest (\<lambda>req. FetchResolves \<lparr>resp_status = 401, resp_statusText = ''Unauthorized'',
            resp_content_type = Some ''application/json'', resp_json = Some (JObj []),
            resp_text = None\<rparr>) ''https://api.example.com'' ''/auth/me''
          \<lparr>opt_method = ''GET'', opt_body = None\<rparr> \<lparr>stored_token = Some (JStr ''t0''), fetch_log = []\<rparr>)
     = Rejected (JErr ''Error'' ''Unauthorized'' [(''status'', JNum (NInt 401)), (''body'', JObj [])])"
    by (simp add: ApiAuthService_makeRequest_def makeRequest_def read_body_def resp_ok_def
          extractErrorMessage_def startsWith_def Let_def)
  have b: "fst (ApiAuthService_makeRequest (\<lambda>req. FetchResolves \<lparr>resp_status = 500, resp_statusText = ''Internal Server Error'',
            resp_content_type = Some ''text/html'', resp_json = None,
            resp_text = Some ''oops''\<rparr>) ''https://api.example.com'' ''/auth/me''
          \<lparr>opt_method = ''GET'', opt_body = None\<rparr> \<lparr>stored_token = Some (JStr ''t0''), fetch_log = []\<rparr>)
     = Rejected (JErr ''Error'' ''Internal Server Error''
         [(''status'', JNum (NInt 500)), (''body'', JStr ''oops'')])"
    by (simp add: ApiAuthService_makeRequest_def makeRequest_def read_body_def resp_ok_def
          extractErrorMessage_def startsWith_def Let_def)
  show ?thesis
    using a b getCurrentUser_failure [OF a] getCurrentUser_failure [OF b]
    by (simp add: handle_def)
qed

text \<open>
  C10. When the request of \<^verbatim>\<open>login()\<close> or of \<^verbatim>\<open>register()\<close> is rejected, the token
  store holds afterwards what it held before, and the method rejects with the
  normalized error.
\<close>

theorem login_register_failure_keeps_token:
  "(fst (ApiAuthService_makeRequest net baseUrl ''/auth/login''
           \<lparr>opt_method = ''POST'',
            opt_body = Some (JObj [(''username'', JStr username), (''password'', JStr password)])\<rparr> w)
      = Rejected e \<longrightarrow>
      fst (login net baseUrl username password w) = Rejected (JErr ''Error'' (handle e) [])
      \<and> stored_token (snd (login net baseUrl username password w)) = stored_token w)
   \<and> (fst (ApiAuthService_makeRequest net baseUrl ''/auth/register''
           \<lparr>opt_method = ''POST'', opt_body = Some userData\<rparr> w)
      = Rejected e' \<longrightarrow>
      fst (register net baseUrl userData w) = Rejected (JErr ''Error'' (handle e') [])
      \<and> stored_token (snd (register net baseUrl userData w)) = stored_token w)"
proof (intro conjI impI)
  let ?opts = "\<lparr>opt_method = ''POST'',
            opt_body = Some (JObj [(''username'', JStr username), (''password'', JStr password)])\<rparr>"
  assume a: "fst (ApiAuthService_makeRequest net baseUrl ''/auth/login'' ?opts w) = Rejected e"
  have p: "makeRequest (Some ''include'') net baseUrl ''/auth/login'' ?opts w =
            (Rejected e, w\<lparr>fetch_log := fetch_log w @
               [request_for (Some ''include'') baseUrl ''/auth/login'' ?opts w]\<rparr>)"
    using a makeRequest_pair [of "Some ''include''" net baseUrl "''/auth/login''" ?opts w]
    by (simp add: ApiAuthService_makeRequest_def)
  show "fst (login net baseUrl username password w) = Rejected (JErr ''Error'' (handle e) [])"
    using p
    by (simp add: login_def ApiAuthService_makeRequest_def async_def try_catch_def
          and_then_def call_async_def block_simps rethrow_normalized_def new_Error_def Let_def)
  show "stored_token (snd (login net baseUrl username password w)) = stored_token w"
    using p
    by (simp add: login_def ApiAuthService_makeRequest_def async_def try_catch_def
          and_then_def call_async_def block_simps rethrow_normalized_def new_Error_def Let_def)
next
  let ?opts = "\<lparr>opt_method = ''POST'', opt_body = Some userData\<rparr>"
  assume a: "fst (ApiAuthService_makeRequest net baseUrl ''/auth/register'' ?opts w) = Rejected e'"
  have p: "makeRequest (Some ''include'') net baseUrl ''/auth/register'' ?opts w =
            (Rejected e', w\<lparr>fetch_log := fetch_log w @
               [request_for (Some ''include'') baseUrl ''/auth/register'' ?opts w]\<rparr>)"
    using a makeRequest_pair [of "Some ''include''" net baseUrl "''/auth/register''" ?opts w]
    by (simp add: ApiAuthService_makeRequest_def)
  show "fst (register net baseUrl userData w) = Rejected (JErr ''Error'' (handle e') [])"
    using p
    by (simp add: register_def ApiAuthService_makeRequest_def async_def try_catch_def
          and_then_def call_async_def block_simps rethrow_normalized_def new_Error_def Let_def)
  show "stored_token (snd (register net baseUrl userData w)) = stored_token w"
    using p
    by (simp add: register_def ApiAuthService_makeRequest_def async_def try_catch_def
          and_then_def call_async_def block_simps rethrow_normalized_def new_Error_def Let_def)
qed

theorem login_register_failure_keeps_token_witness:
  "fst (ApiAuthService_makeRequest (\<lambda>req. FetchResolves \<lparr>resp_status = 401, resp_statusText = ''Unauthorized'',
            resp_content_type = Some ''application/json'', resp_json = Some (JObj []),
            resp_text = None\<rparr>) ''https://api.example.com'' ''/auth/login''
          \<lparr>opt_method = ''POST'',
           opt_body = Some (JObj [(''username'', JStr ''ann''), (''password'', JStr ''pw'')])\<rparr> \<lparr>stored_token = Some (JStr ''t0''), fetch_log = []\<rparr>)
     = Rejected (JErr ''Error'' ''Unauthorized'' [(''status'', JNum (NInt 401)), (''body'', JObj [])])
   \<and> fst (login (\<lambda>req. FetchResolves \<lparr>resp_status = 401, resp_statusText = ''Unauthorized'',
            resp_content_type = Some ''application/json'', resp_json = Some (JObj []),
            resp_text = None\<rparr>) ''https://api.example.com'' ''ann'' ''pw'' \<lparr>stored_token = Some (JStr ''t0''), fetch_log = []\<rparr>)
     = Rejected (JErr ''Error'' ''Authentication required. Please log in again.'' [])
   \<and> stored_token (snd (login (\<lambda>req. FetchResolves \<lparr>resp_status = 401, resp_statusText = ''Unauthorized'',
            resp_content_type = Some ''application/json'', resp_json = Some (JObj []),
            resp_text = None\<rparr>) ''https://api.example.com'' ''ann'' ''pw'' \<lparr>stored_token = Some (JStr ''t0''), fetch_log = []\<rparr>)) = Some (JStr ''t0'')
   \<and> fst (ApiAuthService_makeRequest (\<lambda>req. FetchResolves \<lparr>resp_status = 401, resp_statusText = ''Unauthorized'',
            resp_content_type = Some ''application/json'', resp_json = Some (JObj []),
            resp_text = None\<rparr>) ''https://api.example.com'' ''/auth/register''
          \<lparr>opt_method = ''POST'', opt_body = Some (JObj [(''username'', JStr ''ann'')])\<rparr> \<lparr>stored_token = Some (JStr ''t0''), fetch_log = []\<rparr>)
     = Rejected (JErr ''Error'' ''Unauthorized'' [(''status'', JNum (NInt 401)), (''body'', JObj [])])
   \<and> fst (register (\<lambda>req. FetchResolves \<lparr>resp_status = 401, resp_statusText = ''Unauthorized'',
            resp_content_type = Some ''application/json'', resp_json = Some (JObj []),
            resp_text = None\<rparr>) ''https://api.example.com'' (JObj [(''username'', JStr ''ann'')]) \<lparr>stored_token = Some (JStr ''t0''), fetch_log = []\<rparr>)
     = Rejected (JErr ''Error'' ''Authentication required. Please log in again.'' [])
   \<and> stored_token (snd (register (\<lambda>req. FetchResolves \<lparr>resp_status = 401, resp_statusText = ''Unauthorized'',
            resp_content_type = Some ''application/json'', resp_json = Some (JObj []),
            resp_text = None\<rparr>) ''https://api.example.com''
        (JObj [(''username'', JStr ''ann'')]) \<lparr>stored_token = Some (JStr ''t0''), fetch_log = []\<rparr>)) = Some (JStr ''t0'')"
proof -
  have a: "fst (ApiAuthService_makeRequest (\<lambda>req. FetchResolves \<lparr>resp_status = 401, resp_statusText = ''Unauthorized'',
            resp_content_type = Some ''application/json'', resp_json = Some (JObj []),
            resp_text = None\<rparr>) ''https://api.example.com'' ''/auth/login''
          \<lparr>opt_method = ''POST'',
           opt_body = Some (JObj [(''username'', JStr ''ann''), (''password'', JStr ''pw'')])\<rparr> \<lparr>stored_token = Some (JStr ''t0''), fetch_log = []\<rparr>)
     = Rejected (JErr ''Error'' ''Unauthorized'' [(''status'', JNum (NInt 401)), (''body'', JObj [])])"
    by (simp add: ApiAuthService_makeRequest_def makeRequest_def read_body_def resp_ok_def
          extractErrorMessage_def startsWith_def Let_def)
  have b: "fst (ApiAuthService_makeRequest (\<lambda>req. FetchResolves \<lparr>resp_status = 401, resp_statusText = ''Unauthorized'',
            resp_content_type = Some ''application/json'', resp_json = Some (JObj []),
            resp_text = None\<rparr>) ''https://api.example.com'' ''/auth/register''
          \<lparr>opt_method = ''POST'', opt_body = Some (JObj [(''username'', JStr ''ann'')])\<rparr> \<lparr>stored_token = Some (JStr ''t0''), fetch_log = []\<rparr>)
     = Rejected (JErr ''Error'' ''Unauthorized'' [(''status'', JNum (NInt 401)), (''body'', JObj [])])"
    by (simp add: ApiAuthService_makeRequest_def makeRequest_def read_body_def resp_ok_def
          extractErrorMessage_def startsWith_def Let_def)
  show ?thesis
    using a b
      login_register_failure_keeps_token
        [where net = "(\<lambda>req. FetchResolves \<lparr>resp_status = 401, resp_statusText = ''Unauthorized'',
            resp_content_type = Some ''application/json'', resp_json = Some (JObj []),
            resp_text = None\<rparr>)" and baseUrl = "''https://api.example.com''" and w = "\<lparr>stored_token = Some (JStr ''t0''), fetch_log = []\<rparr>"
           and username = "''ann''" and password = "''pw''"
           and userData = "JObj [(''username'', JStr ''ann'')]"
           and e = "JErr ''Error'' ''Unauthorized'' [(''status'', JNum (NInt 401)), (''body'', JObj [])]"
           and e' = "JErr ''Error'' ''Unauthorized'' [(''status'', JNum (NInt 401)), (''body'', JObj [])]"]
    by (simp add: handle_def)
qed

end
